theory Spec2Isabelle
  imports Main "HOL-Library.Word"
begin

section \<open>JavaScript values\<close>

text \<open>
  The values the library receives from its callers. Numbers are the integral ones
  (printed in decimal); a Buffer is represented by its bytes, one character each.
  The fields of an object are listed in the engine's own property order.
\<close>

datatype jsval =
    JUndefined
  | JNull
  | JBool bool
  | JNum int
  | JStr string
  | JBuffer string
  | JArr "jsval list"
  | JObj "(string \<times> jsval) list"

text \<open>
  What the code throws: \<open>Error msg\<close> is \<open>new Error(msg)\<close> of the library itself,
  \<open>TypeError\<close> is raised by the language on a bad member access or call, and
  \<open>FsError\<close> is an exception of a filesystem primitive that the library lets through.
\<close>

datatype exn = Error string | TypeError string | FsError string

definition typeof_js :: "jsval \<Rightarrow> string" where
  "typeof_js v =
     (case v of
        JUndefined \<Rightarrow> ''undefined''
      | JNull \<Rightarrow> ''object''
      | JBool _ \<Rightarrow> ''boolean''
      | JNum _ \<Rightarrow> ''number''
      | JStr _ \<Rightarrow> ''string''
      | JBuffer _ \<Rightarrow> ''object''
      | JArr _ \<Rightarrow> ''object''
      | JObj _ \<Rightarrow> ''object'')"

definition isArray :: "jsval \<Rightarrow> bool" where
  "isArray v = (case v of JArr _ \<Rightarrow> True | _ \<Rightarrow> False)"

definition truthy :: "jsval \<Rightarrow> bool" where
  "truthy v =
     (case v of
        JUndefined \<Rightarrow> False
      | JNull \<Rightarrow> False
      | JBool b \<Rightarrow> b
      | JNum n \<Rightarrow> n \<noteq> 0
      | JStr s \<Rightarrow> s \<noteq> []
      | _ \<Rightarrow> True)"

subsection \<open>Numbers and bytes as text\<close>

definition digitChar :: "nat \<Rightarrow> char" where
  "digitChar d = ''0123456789abcdefghijklmnopqrstuvwxyz'' ! d"

text \<open>\<open>n.toString(36)\<close> for a non-negative integer.\<close>

fun toString36 :: "nat \<Rightarrow> string" where
  "toString36 n =
     (if n < 36 then [digitChar n] else toString36 (n div 36) @ [digitChar (n mod 36)])"

declare toString36.simps [simp del]

fun decimal :: "nat \<Rightarrow> string" where
  "decimal n =
     (if n < 10 then [digitChar n] else decimal (n div 10) @ [digitChar (n mod 10)])"

declare decimal.simps [simp del]

text \<open>\<open>buf.toString('hex')\<close>: two lower-case digits per byte.\<close>

definition toHex :: "8 word list \<Rightarrow> string" where
  "toHex bs = concat (map (\<lambda>b. [digitChar (unat b div 16), digitChar (unat b mod 16)]) bs)"

fun join :: "string \<Rightarrow> string list \<Rightarrow> string" where
  "join d [] = []"
| "join d [x] = x"
| "join d (x # y # ys) = x @ d @ join d (y # ys)"

text \<open>
  \<open>String(v)\<close>. A number prints in plain decimal, as JavaScript prints the integers
  it holds exactly below \<open>1e21\<close>. An array prints its elements between commas, \<open>null\<close> and
  \<open>undefined\<close> as nothing; an object prints as \<open>[object Object]\<close> unless it has a
  property \<open>toString\<close> of its own, which is no function here, and then the conversion
  throws.
\<close>

fun js_String :: "jsval \<Rightarrow> exn + string"
  and js_String_items :: "jsval list \<Rightarrow> exn + string list" where
  "js_String JUndefined = Inr ''undefined''"
| "js_String JNull = Inr ''null''"
| "js_String (JBool b) = Inr (if b then ''true'' else ''false'')"
| "js_String (JNum n) =
     Inr (if n < 0 then CHR ''-'' # decimal (nat (- n)) else decimal (nat n))"
| "js_String (JStr s) = Inr s"
| "js_String (JBuffer s) = Inr s"
| "js_String (JArr xs) =
     (case js_String_items xs of Inl e \<Rightarrow> Inl e | Inr ss \<Rightarrow> Inr (join '','' ss))"
| "js_String (JObj kvs) =
     (if ''toString'' \<in> fst ` set kvs
      then Inl (TypeError ''Cannot convert object to primitive value'')
      else Inr ''[object Object]'')"
| "js_String_items [] = Inr []"
| "js_String_items (x # xs) =
     (case (if x = JUndefined \<or> x = JNull then Inr [] else js_String x) of
        Inl e \<Rightarrow> Inl e
      | Inr s \<Rightarrow> (case js_String_items xs of Inl e \<Rightarrow> Inl e | Inr ss \<Rightarrow> Inr (s # ss)))"

subsection \<open>Property access\<close>

definition isDigit :: "char \<Rightarrow> bool" where
  "isDigit c = (c \<in> set ''0123456789'')"

definition decimalValue :: "string \<Rightarrow> nat" where
  "decimalValue k = foldl (\<lambda>n c. 10 * n + (of_char c - 48)) 0 k"

text \<open>A property name is an element index when it is the decimal print of a number.\<close>

definition arrayIndex :: "string \<Rightarrow> nat option" where
  "arrayIndex k =
     (if k \<noteq> [] \<and> list_all isDigit k \<and> decimal (decimalValue k) = k
      then Some (decimalValue k) else None)"

definition indexed :: "'a list \<Rightarrow> ('a \<Rightarrow> jsval) \<Rightarrow> string \<Rightarrow> jsval" where
  "indexed xs wrap k =
     (if k = ''length'' then JNum (int (length xs))
      else case arrayIndex k of
             None \<Rightarrow> JUndefined
           | Some i \<Rightarrow> if i < length xs then wrap (xs ! i) else JUndefined)"

text \<open>
  \<open>v[k]\<close>: reading a property of \<open>null\<close> or \<open>undefined\<close> throws. The
  properties are the own ones; what a value inherits (\<open>constructor\<close>, \<open>toString\<close>
  and the like) is a function, and there are no functions among these values. The
  message of the \<open>TypeError\<close> is the engine's up to the name of the property read.
\<close>

definition getProp :: "jsval \<Rightarrow> string \<Rightarrow> exn + jsval" where
  "getProp v k =
     (case v of
        JUndefined \<Rightarrow> Inl (TypeError ''Cannot read properties of undefined'')
      | JNull \<Rightarrow> Inl (TypeError ''Cannot read properties of null'')
      | JObj kvs \<Rightarrow> Inr (case map_of kvs k of None \<Rightarrow> JUndefined | Some x \<Rightarrow> x)
      | JArr xs \<Rightarrow> Inr (indexed xs (\<lambda>x. x) k)
      | JStr s \<Rightarrow> Inr (indexed s (\<lambda>c. JStr [c]) k)
      | JBuffer s \<Rightarrow> Inr (indexed s (\<lambda>c. JNum (of_char c)) k)
      | _ \<Rightarrow> Inr JUndefined)"

definition Object_keys :: "jsval \<Rightarrow> exn + string list" where
  "Object_keys v =
     (case v of
        JUndefined \<Rightarrow> Inl (TypeError ''Cannot convert undefined or null to object'')
      | JNull \<Rightarrow> Inl (TypeError ''Cannot convert undefined or null to object'')
      | JObj kvs \<Rightarrow> Inr (map fst kvs)
      | JArr xs \<Rightarrow> Inr (map decimal [0..<length xs])
      | JStr s \<Rightarrow> Inr (map decimal [0..<length s])
      | JBuffer s \<Rightarrow> Inr (map decimal [0..<length s])
      | _ \<Rightarrow> Inr [])"

text \<open>\<open>xs.map(f)\<close> where \<open>f\<close> may throw: the first exception ends the loop.\<close>

fun mapThrowing :: "('a \<Rightarrow> exn + 'b) \<Rightarrow> 'a list \<Rightarrow> exn + 'b list" where
  "mapThrowing f [] = Inr []"
| "mapThrowing f (x # xs) =
     (case f x of
        Inl e \<Rightarrow> Inl e
      | Inr y \<Rightarrow> (case mapThrowing f xs of Inl e \<Rightarrow> Inl e | Inr ys \<Rightarrow> Inr (y # ys)))"

section \<open>The environment: Node's primitives\<close>

text \<open>
  The library calls \<open>os\<close>, \<open>path\<close>, \<open>JSON\<close> and \<open>fs\<close>; none of them is part of it,
  so they are parameters, over any type \<open>'fs\<close> of filesystem states. A primitive that
  changes the filesystem returns the message of the exception it threw, if any, and
  the filesystem it left.
\<close>

record 'fs env =
  tmpdir :: string
  path_join :: "string \<Rightarrow> string \<Rightarrow> string"
  path_extname :: "string \<Rightarrow> string"
  JSON_stringify :: "jsval \<Rightarrow> string"
  existsSync :: "'fs \<Rightarrow> string \<Rightarrow> bool"
  statSync_isDirectory :: "'fs \<Rightarrow> string \<Rightarrow> string + bool"
  readFileSync :: "'fs \<Rightarrow> string \<Rightarrow> string + jsval"
  mkdirSync :: "'fs \<Rightarrow> string \<Rightarrow> string option \<times> 'fs"
  writeFileSync :: "'fs \<Rightarrow> string \<Rightarrow> jsval \<Rightarrow> nat option \<Rightarrow> string option \<times> 'fs"
  unlinkSync :: "'fs \<Rightarrow> string \<Rightarrow> string option \<times> 'fs"
  rmSync :: "'fs \<Rightarrow> string \<Rightarrow> string option \<times> 'fs"

section \<open>The module state\<close>

datatype hook = OnExit | OnSIGINT | OnSIGTERM | OnUncaughtException | OnUnhandledRejection

text \<open>
  \<open>tempFiles\<close> is a \<open>Set\<close>: a list without repetition, in insertion order.
  \<open>listeners\<close> are the handlers given to \<open>process.on\<close>, \<open>console\<close> the lines
  written by \<open>console.warn\<close>.
\<close>

record 'fs state =
  fs :: 'fs
  tempFiles :: "string list"
  cleanupRegistered :: bool
  listeners :: "hook list"
  console :: "string list"

definition initial :: "'fs \<Rightarrow> 'fs state" where
  "initial f = \<lparr>fs = f, tempFiles = [], cleanupRegistered = False, listeners = [], console = []\<rparr>"

definition set_add :: "string \<Rightarrow> string list \<Rightarrow> string list" where
  "set_add p xs = (if p \<in> set xs then xs else xs @ [p])"

definition set_delete :: "string \<Rightarrow> string list \<Rightarrow> string list" where
  "set_delete p xs = removeAll p xs"

record options =
  opt_dir :: "string option"
  opt_prefix :: "string option"
  opt_cleanup :: "bool option"
  opt_mode :: "nat option"
  opt_delimiter :: "string option"

definition default_to :: "'a \<Rightarrow> 'a option \<Rightarrow> 'a" where
  "default_to d x = (case x of None \<Rightarrow> d | Some v \<Rightarrow> v)"

section \<open>The library\<close>

subsection \<open>Process hooks\<close>

text \<open>
  \<open>registerCleanup\<close>: the flag guards the five \<open>process.on\<close> calls. Every handler
  runs \<open>cleanupAllSync\<close>; the handlers of signals and faults then leave the process.
\<close>

definition processHooks :: "hook list" where
  "processHooks = [OnExit, OnSIGINT, OnSIGTERM, OnUncaughtException, OnUnhandledRejection]"

definition registerCleanup :: "'fs state \<Rightarrow> 'fs state" where
  "registerCleanup st =
     (if cleanupRegistered st then st
      else st\<lparr>cleanupRegistered := True, listeners := listeners st @ processHooks\<rparr>)"

subsection \<open>Writing a file\<close>

text \<open>The extension after \<open>if (extension && !extension.startsWith('.'))\<close>.\<close>

definition normalizeExtension :: "string \<Rightarrow> string" where
  "normalizeExtension extension =
     (if extension \<noteq> [] \<and> \<not> (hd extension = CHR ''.'') then CHR ''.'' # extension
      else extension)"

definition randomId :: "8 word list \<Rightarrow> string" where
  "randomId rnd = toHex rnd"

definition timestamp :: "nat \<Rightarrow> string" where
  "timestamp now = toString36 now"

text \<open>The \<open>filename\<close> of \<open>tempWriteSync\<close>, from the extension already normalised.\<close>

definition tempFileName :: "options \<Rightarrow> 8 word list \<Rightarrow> nat \<Rightarrow> string \<Rightarrow> string" where
  "tempFileName opts rnd now extension =
     default_to ''temp-'' (opt_prefix opts) @ timestamp now @ ''-'' @ randomId rnd @ extension"

text \<open>
  The \<open>try\<close> block shared by \<open>tempWriteSync\<close> and \<open>tempWritePatternSync\<close>: make the
  directory when it is absent, write, register when \<open>cleanup\<close> is set. Whatever a
  primitive throws is caught and thrown again under the library's message.
\<close>

definition writeAndRegister ::
  "'fs env \<Rightarrow> string \<Rightarrow> string \<Rightarrow> jsval \<Rightarrow> nat option \<Rightarrow> bool \<Rightarrow> 'fs state
     \<Rightarrow> (exn + string) \<times> 'fs state" where
  "writeAndRegister env dir filePath content mode cleanup st =
     (case (if \<not> existsSync env (fs st) dir then mkdirSync env (fs st) dir
            else (None, fs st)) of
        (Some m, f1) \<Rightarrow>
          (Inl (Error (''Failed to write temporary file: '' @ m)), st\<lparr>fs := f1\<rparr>)
      | (None, f1) \<Rightarrow>
          (case writeFileSync env f1 filePath content mode of
             (Some m, f2) \<Rightarrow>
               (Inl (Error (''Failed to write temporary file: '' @ m)), st\<lparr>fs := f2\<rparr>)
           | (None, f2) \<Rightarrow>
               (Inr filePath,
                if cleanup
                then (registerCleanup (st\<lparr>fs := f2\<rparr>))
                       \<lparr>tempFiles := set_add filePath (tempFiles (st\<lparr>fs := f2\<rparr>))\<rparr>
                else st\<lparr>fs := f2\<rparr>)))"

text \<open>
  \<open>tempWriteSync(content, extension, options)\<close>; \<open>rnd\<close> are the bytes that
  \<open>crypto.randomBytes(6)\<close> returns and \<open>now\<close> is \<open>Date.now()\<close>. An omitted
  extension is \<open>JUndefined\<close> and takes the default \<open>''\<close>.
\<close>

definition tempWriteSync ::
  "'fs env \<Rightarrow> jsval \<Rightarrow> jsval \<Rightarrow> options \<Rightarrow> 8 word list \<Rightarrow> nat \<Rightarrow> 'fs state
     \<Rightarrow> (exn + string) \<times> 'fs state" where
  "tempWriteSync env content extension opts rnd now st =
     (let dir = default_to (tmpdir env) (opt_dir opts);
          cleanup = default_to True (opt_cleanup opts);
          mode = default_to 384 (opt_mode opts)
      in if content = JNull \<or> content = JUndefined
         then (Inl (Error ''Content cannot be null or undefined''), st)
         else (case (if extension = JUndefined then JStr [] else extension) of
                 JStr ext \<Rightarrow>
                   writeAndRegister env dir
                     (path_join env dir (tempFileName opts rnd now (normalizeExtension ext)))
                     content (Some mode) cleanup st
               | _ \<Rightarrow> (Inl (Error ''Extension must be a string''), st)))"

definition tempWriteJsonSync ::
  "'fs env \<Rightarrow> jsval \<Rightarrow> options \<Rightarrow> 8 word list \<Rightarrow> nat \<Rightarrow> 'fs state
     \<Rightarrow> (exn + string) \<times> 'fs state" where
  "tempWriteJsonSync env obj opts rnd now st =
     (if typeof_js obj \<noteq> ''object'' \<or> obj = JNull
      then (Inl (Error ''Input must be a valid object''), st)
      else tempWriteSync env (JStr (JSON_stringify env obj)) (JStr ''.json'') opts rnd now st)"

subsection \<open>CSV\<close>

definition dquote :: char where
  "dquote = CHR 0x22"

definition newline :: string where
  "newline = [CHR 0x0A]"

text \<open>A cell between quotes, every quote inside it doubled.\<close>

definition quoteCell :: "string \<Rightarrow> string" where
  "quoteCell s = dquote # concat (map (\<lambda>c. if c = dquote then [dquote, dquote] else [c]) s) @ [dquote]"

definition csvCell :: "jsval \<Rightarrow> exn + string" where
  "csvCell cell = (case js_String cell of Inl e \<Rightarrow> Inl e | Inr s \<Rightarrow> Inr (quoteCell s))"

text \<open>
  A row of the array-of-arrays form, \<open>row.map(...).join(delimiter)\<close>. Arrays have
  \<open>map\<close>, and so has a Buffer, whose \<open>map\<close> stores each quoted cell back as a byte:
  a text that is no number, hence 0. Nothing else has it.
\<close>

definition csvArrayRow :: "string \<Rightarrow> jsval \<Rightarrow> exn + string" where
  "csvArrayRow delimiter row =
     (case row of
        JArr cells \<Rightarrow>
          (case mapThrowing csvCell cells of
             Inl e \<Rightarrow> Inl e
           | Inr quoted \<Rightarrow> Inr (join delimiter quoted))
      | JBuffer bytes \<Rightarrow> Inr (join delimiter (map (\<lambda>b. ''0'') bytes))
      | JUndefined \<Rightarrow> Inl (TypeError ''Cannot read properties of undefined'')
      | JNull \<Rightarrow> Inl (TypeError ''Cannot read properties of null'')
      | _ \<Rightarrow> Inl (TypeError ''row.map is not a function''))"

text \<open>A row of the array-of-objects form: \<open>row[header] || ''\<close> for every header.\<close>

definition csvObjectRow :: "string \<Rightarrow> string list \<Rightarrow> jsval \<Rightarrow> exn + string" where
  "csvObjectRow delimiter headers row =
     (case mapThrowing
             (\<lambda>header. case getProp row header of
                          Inl e \<Rightarrow> Inl e
                        | Inr v \<Rightarrow> csvCell (if truthy v then v else JStr []))
             headers of
        Inl e \<Rightarrow> Inl e
      | Inr cells \<Rightarrow> Inr (join delimiter cells))"

text \<open>The \<open>csvContent\<close> of \<open>tempWriteCsvSync\<close>: only \<open>data[0]\<close> selects the form.\<close>

definition csvContent :: "string \<Rightarrow> jsval list \<Rightarrow> exn + string" where
  "csvContent delimiter data =
     (case data of
        [] \<Rightarrow> Inr []
      | first # _ \<Rightarrow>
          if isArray first then
            (case mapThrowing (csvArrayRow delimiter) data of
               Inl e \<Rightarrow> Inl e
             | Inr rows \<Rightarrow> Inr (join newline rows))
          else if typeof_js first = ''object'' then
            (case Object_keys first of
               Inl e \<Rightarrow> Inl e
             | Inr headers \<Rightarrow>
                 (case mapThrowing (csvObjectRow delimiter headers) data of
                    Inl e \<Rightarrow> Inl e
                  | Inr dataRows \<Rightarrow>
                      Inr (join newline
                             (join delimiter (map (\<lambda>h. dquote # h @ [dquote]) headers) # dataRows))))
          else Inl (Error ''Invalid CSV data format''))"

definition tempWriteCsvSync ::
  "'fs env \<Rightarrow> jsval \<Rightarrow> options \<Rightarrow> 8 word list \<Rightarrow> nat \<Rightarrow> 'fs state
     \<Rightarrow> (exn + string) \<times> 'fs state" where
  "tempWriteCsvSync env data opts rnd now st =
     (case data of
        JArr rows \<Rightarrow>
          (case csvContent (default_to '','' (opt_delimiter opts)) rows of
             Inl e \<Rightarrow> (Inl e, st)
           | Inr content \<Rightarrow> tempWriteSync env (JStr content) (JStr ''.csv'') opts rnd now st)
      | _ \<Rightarrow> (Inl (Error ''CSV data must be an array''), st))"

subsection \<open>Directories and copies\<close>

definition tempDirSync ::
  "'fs env \<Rightarrow> options \<Rightarrow> 8 word list \<Rightarrow> nat \<Rightarrow> 'fs state \<Rightarrow> (exn + string) \<times> 'fs state" where
  "tempDirSync env opts rnd now st =
     (let dir = default_to (tmpdir env) (opt_dir opts);
          cleanup = default_to True (opt_cleanup opts);
          dirPath = path_join env dir
            (default_to ''temp-dir-'' (opt_prefix opts) @ timestamp now @ ''-'' @ randomId rnd)
      in case mkdirSync env (fs st) dirPath of
           (Some m, f1) \<Rightarrow>
             (Inl (Error (''Failed to create temporary directory: '' @ m)), st\<lparr>fs := f1\<rparr>)
         | (None, f1) \<Rightarrow>
             (Inr dirPath,
              if cleanup
              then (registerCleanup (st\<lparr>fs := f1\<rparr>))
                     \<lparr>tempFiles := set_add dirPath (tempFiles (st\<lparr>fs := f1\<rparr>))\<rparr>
              else st\<lparr>fs := f1\<rparr>))"

definition tempCopySync ::
  "'fs env \<Rightarrow> string \<Rightarrow> jsval \<Rightarrow> options \<Rightarrow> 8 word list \<Rightarrow> nat \<Rightarrow> 'fs state
     \<Rightarrow> (exn + string) \<times> 'fs state" where
  "tempCopySync env sourcePath extension opts rnd now st =
     (if \<not> existsSync env (fs st) sourcePath
      then (Inl (Error (''Source file does not exist: '' @ sourcePath)), st)
      else case readFileSync env (fs st) sourcePath of
             Inl m \<Rightarrow> (Inl (FsError m), st)
           | Inr content \<Rightarrow>
               tempWriteSync env content
                 (if \<not> truthy (if extension = JUndefined then JStr [] else extension)
                  then JStr (path_extname env sourcePath)
                  else extension)
                 opts rnd now st)"

subsection \<open>Names from a pattern\<close>

text \<open>
  \<open>s.replace(pat, rep)\<close> with a string \<open>pat\<close> rewrites the leftmost occurrence only.
  \<open>splitAtFirst\<close> finds it and returns what precedes and what follows it.
\<close>

fun splitAtFirst :: "string \<Rightarrow> string \<Rightarrow> (string \<times> string) option" where
  "splitAtFirst pat [] = (if pat = [] then Some ([], []) else None)"
| "splitAtFirst pat (c # cs) =
     (if take (length pat) (c # cs) = pat then Some ([], drop (length pat) (c # cs))
      else map_option (\<lambda>(a, b). (c # a, b)) (splitAtFirst pat cs))"

text \<open>
  The replacement text is expanded first: \<open>$$\<close> is a dollar sign, \<open>$&\<close> the match,
  \<open>$`\<close> the text before it and \<open>$'\<close> the text after it; without capture groups
  every other \<open>$\<close> stands for itself.
\<close>

fun getSubstitution :: "string \<Rightarrow> string \<Rightarrow> string \<Rightarrow> string \<Rightarrow> string" where
  "getSubstitution matched pre post [] = []"
| "getSubstitution matched pre post [c] = [c]"
| "getSubstitution matched pre post (c # d # rest) =
     (if c = CHR ''$'' \<and> d = CHR ''$'' then CHR ''$'' # getSubstitution matched pre post rest
      else if c = CHR ''$'' \<and> d = CHR ''&'' then matched @ getSubstitution matched pre post rest
      else if c = CHR ''$'' \<and> d = CHR 0x60 then pre @ getSubstitution matched pre post rest
      else if c = CHR ''$'' \<and> d = CHR 0x27 then post @ getSubstitution matched pre post rest
      else c # getSubstitution matched pre post (d # rest))"

text \<open>Whether \<open>pat\<close> occurs in \<open>s\<close>.\<close>

definition occurs :: "string \<Rightarrow> string \<Rightarrow> bool" where
  "occurs pat s = (splitAtFirst pat s \<noteq> None)"

definition replace_js :: "string \<Rightarrow> string \<Rightarrow> string \<Rightarrow> string" where
  "replace_js pat rep s =
     (case splitAtFirst pat s of
        None \<Rightarrow> s
      | Some (a, b) \<Rightarrow> a @ getSubstitution pat a b rep @ b)"

text \<open>The \<open>filename\<close> of \<open>tempWritePatternSync\<close>: three calls of \<open>replace\<close> in a row.\<close>

definition patternFileName :: "string \<Rightarrow> 8 word list \<Rightarrow> nat \<Rightarrow> string" where
  "patternFileName pattern rnd now =
     replace_js ''{time}'' (timestamp now)
       (replace_js ''{timestamp}'' (timestamp now)
          (replace_js ''{random}'' (randomId rnd) pattern))"

definition tempWritePatternSync ::
  "'fs env \<Rightarrow> jsval \<Rightarrow> string \<Rightarrow> options \<Rightarrow> 8 word list \<Rightarrow> nat \<Rightarrow> 'fs state
     \<Rightarrow> (exn + string) \<times> 'fs state" where
  "tempWritePatternSync env content pattern opts rnd now st =
     (let dir = default_to (tmpdir env) (opt_dir opts);
          cleanup = default_to True (opt_cleanup opts)
      in writeAndRegister env dir (path_join env dir (patternFileName pattern rnd now))
           content None cleanup st)"

subsection \<open>Cleanup and the registry\<close>

text \<open>
  \<open>cleanupSync\<close>: the removal and \<open>tempFiles.delete\<close> are both inside the \<open>try\<close>;
  the \<open>catch\<close> warns and returns \<open>false\<close>.
\<close>

definition cleanupFailed :: "string \<Rightarrow> string \<Rightarrow> 'fs state \<Rightarrow> bool \<times> 'fs state" where
  "cleanupFailed filePath m st =
     (False, st\<lparr>console := console st @ [''Failed to cleanup '' @ filePath @ '': '' @ m]\<rparr>)"

definition cleanupSync :: "'fs env \<Rightarrow> string \<Rightarrow> 'fs state \<Rightarrow> bool \<times> 'fs state" where
  "cleanupSync env filePath st =
     (if existsSync env (fs st) filePath then
        (case statSync_isDirectory env (fs st) filePath of
           Inl m \<Rightarrow> cleanupFailed filePath m st
         | Inr isDir \<Rightarrow>
             (case (if isDir then rmSync env (fs st) filePath
                    else unlinkSync env (fs st) filePath) of
                (Some m, f1) \<Rightarrow> cleanupFailed filePath m (st\<lparr>fs := f1\<rparr>)
              | (None, f1) \<Rightarrow>
                  (True, st\<lparr>fs := f1, tempFiles := set_delete filePath (tempFiles st)\<rparr>)))
      else (True, st\<lparr>tempFiles := set_delete filePath (tempFiles st)\<rparr>))"

text \<open>
  The \<open>for ... of\<close> loop of \<open>cleanupAllSync\<close> over the paths still to visit, with the
  counter. The set is iterated while \<open>cleanupSync\<close> deletes from it; it deletes the
  entry being visited and no other, so the entries still to visit are the rest of the list.
\<close>

fun cleanupLoop :: "'fs env \<Rightarrow> string list \<Rightarrow> nat \<Rightarrow> 'fs state \<Rightarrow> nat \<times> 'fs state" where
  "cleanupLoop env [] cleanedCount st = (cleanedCount, st)"
| "cleanupLoop env (filePath # rest) cleanedCount st =
     (case cleanupSync env filePath st of
        (ok, st1) \<Rightarrow> cleanupLoop env rest (if ok then cleanedCount + 1 else cleanedCount) st1)"

definition cleanupAllSync :: "'fs env \<Rightarrow> 'fs state \<Rightarrow> nat \<times> 'fs state" where
  "cleanupAllSync env st =
     (case cleanupLoop env (tempFiles st) 0 st of
        (cleanedCount, st1) \<Rightarrow> (cleanedCount, st1\<lparr>tempFiles := []\<rparr>))"

definition getTempFiles :: "'fs state \<Rightarrow> string list" where
  "getTempFiles st = tempFiles st"

definition excludeFromCleanup :: "string \<Rightarrow> 'fs state \<Rightarrow> 'fs state" where
  "excludeFromCleanup filePath st = st\<lparr>tempFiles := set_delete filePath (tempFiles st)\<rparr>"

definition isTempFile :: "'fs state \<Rightarrow> string \<Rightarrow> bool" where
  "isTempFile st filePath = (filePath \<in> set (tempFiles st))"

section \<open>Programs: sequences of calls\<close>

text \<open>
  A call of an exported function, with the random bytes and the clock reading it
  consumes. \<open>exec\<close> runs one call and keeps the state; a call that throws leaves the
  state it reached, as a caller that catches the exception would find it.
\<close>

datatype call =
    TempWriteSync jsval jsval options
  | TempWriteJsonSync jsval options
  | TempWriteCsvSync jsval options
  | TempDirSync options
  | TempCopySync string jsval options
  | TempWritePatternSync jsval string options
  | CleanupSync string
  | CleanupAllSync
  | GetTempFiles
  | ExcludeFromCleanup string
  | IsTempFile string

fun exec :: "'fs env \<Rightarrow> call \<times> 8 word list \<times> nat \<Rightarrow> 'fs state \<Rightarrow> 'fs state" where
  "exec env (TempWriteSync content extension opts, rnd, now) st =
     snd (tempWriteSync env content extension opts rnd now st)"
| "exec env (TempWriteJsonSync obj opts, rnd, now) st =
     snd (tempWriteJsonSync env obj opts rnd now st)"
| "exec env (TempWriteCsvSync data opts, rnd, now) st =
     snd (tempWriteCsvSync env data opts rnd now st)"
| "exec env (TempDirSync opts, rnd, now) st = snd (tempDirSync env opts rnd now st)"
| "exec env (TempCopySync sourcePath extension opts, rnd, now) st =
     snd (tempCopySync env sourcePath extension opts rnd now st)"
| "exec env (TempWritePatternSync content pattern opts, rnd, now) st =
     snd (tempWritePatternSync env content pattern opts rnd now st)"
| "exec env (CleanupSync filePath, rnd, now) st = snd (cleanupSync env filePath st)"
| "exec env (CleanupAllSync, rnd, now) st = snd (cleanupAllSync env st)"
| "exec env (GetTempFiles, rnd, now) st = st"
| "exec env (ExcludeFromCleanup filePath, rnd, now) st = excludeFromCleanup filePath st"
| "exec env (IsTempFile filePath, rnd, now) st = st"

fun run :: "'fs env \<Rightarrow> (call \<times> 8 word list \<times> nat) list \<Rightarrow> 'fs state \<Rightarrow> 'fs state" where
  "run env [] st = st"
| "run env (c # cs) st = run env cs (exec env c st)"

text \<open>The \<open>cleanup\<close> option a call passes, for the calls that create something.\<close>

fun callOptions :: "call \<Rightarrow> options option" where
  "callOptions (TempWriteSync content extension opts) = Some opts"
| "callOptions (TempWriteJsonSync obj opts) = Some opts"
| "callOptions (TempWriteCsvSync data opts) = Some opts"
| "callOptions (TempDirSync opts) = Some opts"
| "callOptions (TempCopySync sourcePath extension opts) = Some opts"
| "callOptions (TempWritePatternSync content pattern opts) = Some opts"
| "callOptions c = None"

definition untracked :: "call \<times> 8 word list \<times> nat \<Rightarrow> bool" where
  "untracked c =
     (case callOptions (fst c) of None \<Rightarrow> True | Some opts \<Rightarrow> opt_cleanup opts = Some False)"

section \<open>A filesystem to run the library on\<close>

text \<open>
  A small filesystem in memory for running the definitions on concrete inputs: the
  paths that exist, each a directory or a file, the paths that cannot be created or
  written (\<open>readonly\<close>) and the paths that cannot be removed (\<open>pinned\<close>).
\<close>

record memfs =
  entries :: "(string \<times> bool) list"
  readonly :: "string list"
  pinned :: "string list"

definition mem_put :: "string \<Rightarrow> bool \<Rightarrow> memfs \<Rightarrow> string option \<times> memfs" where
  "mem_put p isDir m =
     (if p \<in> set (readonly m) then (Some ''EACCES: permission denied'', m)
      else (None, m\<lparr>entries := (p, isDir) # filter (\<lambda>e. fst e \<noteq> p) (entries m)\<rparr>))"

definition mem_remove :: "string \<Rightarrow> memfs \<Rightarrow> string option \<times> memfs" where
  "mem_remove p m =
     (if p \<in> set (pinned m) then (Some ''EPERM: operation not permitted'', m)
      else (None, m\<lparr>entries := filter (\<lambda>e. fst e \<noteq> p) (entries m)\<rparr>))"

definition mem_env :: "memfs env" where
  "mem_env =
     \<lparr>tmpdir = ''/tmp'',
      path_join = (\<lambda>d f. d @ ''/'' @ f),
      path_extname = (\<lambda>p. []),
      JSON_stringify = (\<lambda>v. ''{}''),
      existsSync = (\<lambda>m p. p \<in> fst ` set (entries m)),
      statSync_isDirectory =
        (\<lambda>m p. case map_of (entries m) p of None \<Rightarrow> Inl ''ENOENT'' | Some d \<Rightarrow> Inr d),
      readFileSync = (\<lambda>m p. Inr (JBuffer [])),
      mkdirSync = (\<lambda>m p. mem_put p True m),
      writeFileSync = (\<lambda>m p content mode. mem_put p False m),
      unlinkSync = (\<lambda>m p. mem_remove p m),
      rmSync = (\<lambda>m p. mem_remove p m)\<rparr>"

text \<open>An empty \<open>/tmp\<close>, with the given read-only and pinned paths.\<close>

definition mem_fs :: "string list \<Rightarrow> string list \<Rightarrow> memfs" where
  "mem_fs ro pin = \<lparr>entries = [(''/tmp'', True)], readonly = ro, pinned = pin\<rparr>"

definition no_options :: options where
  "no_options =
     \<lparr>opt_dir = None, opt_prefix = None, opt_cleanup = None, opt_mode = None,
      opt_delimiter = None\<rparr>"

text \<open>Two calls of \<open>tempWriteSync\<close> on an empty \<open>/tmp\<close> where the first file cannot be removed.\<close>

definition pinned_path :: string where
  "pinned_path = ''/tmp/temp-0-000000000000''"

definition pinned_state :: "memfs state" where
  "pinned_state =
     snd (tempWriteSync mem_env (JStr ''x'') JUndefined no_options [0, 0, 0, 0, 0, 0] 0
            (initial (mem_fs [] [pinned_path])))"

definition free_path :: string where
  "free_path = ''/tmp/temp-0-000000000001''"

definition write_x_call :: "call \<times> 8 word list \<times> nat" where
  "write_x_call = (TempWriteSync (JStr ''x'') JUndefined no_options, [0, 0, 0, 0, 0, 0], 0)"

definition write_y_call :: "call \<times> 8 word list \<times> nat" where
  "write_y_call = (TempWriteSync (JStr ''y'') JUndefined no_options, [0, 0, 0, 0, 0, 1], 0)"

definition two_files_state :: "memfs state" where
  "two_files_state = run mem_env [write_x_call, write_y_call] (initial (mem_fs [] [pinned_path]))"

text \<open>The same filesystem when \<open>statSync\<close> is refused on every path.\<close>

definition stat_denied_env :: "memfs env" where
  "stat_denied_env =
     mem_env\<lparr>statSync_isDirectory := (\<lambda>m p. Inl ''EACCES: permission denied'')\<rparr>"

text \<open>A call that asks for no cleanup.\<close>

definition untracked_call :: "call \<times> 8 word list \<times> nat" where
  "untracked_call =
     (TempWriteSync (JStr ''x'') JUndefined (no_options\<lparr>opt_cleanup := Some False\<rparr>),
      [0, 0, 0, 0, 0, 0], 0)"

section \<open>What \<open>cleanupAllSync\<close> is to return\<close>

text \<open>
  The outcome of \<open>cleanupSync\<close> on every path of a snapshot in turn; the count the
  specification asks of \<open>cleanupAllSync\<close> is the number of \<open>True\<close> among them.
\<close>

fun cleanupOutcomes :: "'fs env \<Rightarrow> string list \<Rightarrow> 'fs state \<Rightarrow> bool list" where
  "cleanupOutcomes env [] st = []"
| "cleanupOutcomes env (filePath # rest) st =
     (case cleanupSync env filePath st of (ok, st1) \<Rightarrow> ok # cleanupOutcomes env rest st1)"

section \<open>The state between calls\<close>

text \<open>
  \<open>consistent\<close>: the flag is set exactly when the five handlers are installed, and
  nothing is tracked before that. \<open>transition\<close>: what one call may do to the registry
  and the hooks: either it leaves the hooks alone and adds no path, or (only when it asked
  for cleanup) it has gone through \<open>registerCleanup\<close> and tracks a path.
\<close>

definition consistent :: "'fs state \<Rightarrow> bool" where
  "consistent st =
     (if cleanupRegistered st then listeners st = processHooks
      else listeners st = [] \<and> tempFiles st = [])"

definition transition :: "bool \<Rightarrow> 'fs state \<Rightarrow> 'fs state \<Rightarrow> bool" where
  "transition tracked st st1 =
     ((cleanupRegistered st1 = cleanupRegistered st \<and> listeners st1 = listeners st \<and>
       set (tempFiles st1) \<subseteq> set (tempFiles st)) \<or>
      (tracked \<and> cleanupRegistered st1 \<and> tempFiles st1 \<noteq> [] \<and>
       listeners st1 = (if cleanupRegistered st then listeners st else listeners st @ processHooks)))"

section \<open>Properties\<close>

subsection \<open>Evaluation on the filesystem in memory\<close>

lemmas eval_defs =
  tempWriteSync_def writeAndRegister_def mem_env_def
  mem_fs_def initial_def no_options_def default_to_def tempFileName_def normalizeExtension_def
  timestamp_def randomId_def toHex_def digitChar_def toString36.simps mem_put_def mem_remove_def
  registerCleanup_def processHooks_def set_add_def set_delete_def cleanupSync_def cleanupFailed_def
  cleanupAllSync_def isTempFile_def getTempFiles_def pinned_path_def free_path_def
  write_x_call_def write_y_call_def untracked_call_def

lemma pinned_state_eq:
  "pinned_state =
     \<lparr>fs = \<lparr>entries = [(pinned_path, False), (''/tmp'', True)], readonly = [], pinned = [pinned_path]\<rparr>,
      tempFiles = [pinned_path], cleanupRegistered = True,
      listeners = processHooks,
      console = []\<rparr>"
  by (simp add: pinned_state_def pinned_path_def tempWriteSync_def writeAndRegister_def mem_env_def
      mem_fs_def initial_def no_options_def default_to_def tempFileName_def normalizeExtension_def
      timestamp_def randomId_def toHex_def digitChar_def toString36.simps mem_put_def
      registerCleanup_def processHooks_def set_add_def)

lemma pinned_cleanup:
  "cleanupSync mem_env pinned_path pinned_state =
     (False, pinned_state\<lparr>console := [''Failed to cleanup /tmp/temp-0-000000000000: EPERM: operation not permitted'']\<rparr>)"
  by (simp add: pinned_state_eq cleanupSync_def cleanupFailed_def mem_env_def mem_remove_def)
     (simp add: pinned_path_def)

lemma two_files_state_eq:
  "two_files_state =
     \<lparr>fs = \<lparr>entries = [(free_path, False), (pinned_path, False), (''/tmp'', True)],
             readonly = [], pinned = [pinned_path]\<rparr>,
      tempFiles = [pinned_path, free_path], cleanupRegistered = True,
      listeners = processHooks,
      console = []\<rparr>"
  by (simp add: two_files_state_def eval_defs)

lemma two_files_cleanupAll:
  "cleanupAllSync mem_env two_files_state =
     (1, \<lparr>fs = \<lparr>entries = [(pinned_path, False), (''/tmp'', True)],
             readonly = [], pinned = [pinned_path]\<rparr>,
      tempFiles = [], cleanupRegistered = True,
      listeners = processHooks,
      console = [''Failed to cleanup /tmp/temp-0-000000000000: EPERM: operation not permitted'']\<rparr>)"
  by (simp add: two_files_state_eq eval_defs)

lemma mem_removal_effective:
  "(\<forall>f q f'. unlinkSync mem_env f q = (None, f') \<longrightarrow> \<not> existsSync mem_env f' q) \<and>
   (\<forall>f q f'. rmSync mem_env f q = (None, f') \<longrightarrow> \<not> existsSync mem_env f' q)"
  by (auto simp: mem_env_def mem_remove_def split: if_splits)

subsection \<open>The registry under cleanup\<close>

lemma set_delete_absent [simp]: "p \<notin> set (set_delete p xs)"
  by (simp add: set_delete_def)

lemma set_delete_idem [simp]: "set_delete p (set_delete p xs) = set_delete p xs"
  by (simp add: set_delete_def)

lemma cleanupSync_registry:
  "tempFiles (snd (cleanupSync env p st)) =
     (if fst (cleanupSync env p st) then set_delete p (tempFiles st) else tempFiles st)"
  by (simp add: cleanupSync_def cleanupFailed_def split: sum.splits prod.splits option.splits)

lemma cleanupSync_hooks:
  "cleanupRegistered (snd (cleanupSync env p st)) = cleanupRegistered st \<and>
   listeners (snd (cleanupSync env p st)) = listeners st"
  by (simp add: cleanupSync_def cleanupFailed_def split: sum.splits prod.splits option.splits)

lemma cleanupLoop_count:
  "fst (cleanupLoop env ps n st) = n + length (filter id (cleanupOutcomes env ps st))"
  by (induction ps arbitrary: n st) (auto split: prod.splits)

lemma cleanupOutcomes_length: "length (cleanupOutcomes env ps st) = length ps"
  by (induction ps arbitrary: st) (auto split: prod.splits)

lemma cleanupLoop_hooks:
  "cleanupRegistered (snd (cleanupLoop env ps n st)) = cleanupRegistered st \<and>
   listeners (snd (cleanupLoop env ps n st)) = listeners st"
proof (induction ps arbitrary: n st)
  case Nil
  show ?case by simp
next
  case (Cons p ps)
  obtain ok st1 where c: "cleanupSync env p st = (ok, st1)" by (cases "cleanupSync env p st")
  from cleanupSync_hooks [of env p st] c
  have "cleanupRegistered st1 = cleanupRegistered st \<and> listeners st1 = listeners st" by simp
  with Cons.IH [of "if ok then n + 1 else n" st1] c show ?case by simp
qed

lemma cleanupAllSync_empty: "tempFiles (snd (cleanupAllSync env st)) = []"
  by (simp add: cleanupAllSync_def split: prod.splits)

lemma cleanupAllSync_fst:
  "fst (cleanupAllSync env st) = length (filter id (cleanupOutcomes env (tempFiles st) st))"
  by (simp add: cleanupAllSync_def cleanupLoop_count [of env _ 0, simplified] split: prod.splits)
     (metis cleanupLoop_count add_0 fst_conv)

lemma cleanupAllSync_again:
  "tempFiles st = [] \<Longrightarrow> cleanupAllSync env st = (0, st)"
  by (simp add: cleanupAllSync_def)

lemma cleanupSync_absent_path:
  "\<not> existsSync env (fs st) p \<Longrightarrow>
   cleanupSync env p st = (True, st\<lparr>tempFiles := set_delete p (tempFiles st)\<rparr>)"
  by (simp add: cleanupSync_def)

lemma cleanupSync_success_gone:
  assumes u: "\<forall>f q f'. unlinkSync env f q = (None, f') \<longrightarrow> \<not> existsSync env f' q"
    and r: "\<forall>f q f'. rmSync env f q = (None, f') \<longrightarrow> \<not> existsSync env f' q"
    and ok: "fst (cleanupSync env p st)"
  shows "\<not> existsSync env (fs (snd (cleanupSync env p st))) p"
proof (cases "existsSync env (fs st) p")
  case False
  then show ?thesis by (simp add: cleanupSync_def)
next
  case True
  show ?thesis
  proof (cases "statSync_isDirectory env (fs st) p")
    case (Inl m)
    with True ok show ?thesis by (simp add: cleanupSync_def cleanupFailed_def)
  next
    case (Inr isDir)
    obtain e f1 where rem:
      "(if isDir then rmSync env (fs st) p else unlinkSync env (fs st) p) = (e, f1)"
      by (cases "if isDir then rmSync env (fs st) p else unlinkSync env (fs st) p")
    show ?thesis
    proof (cases e)
      case (Some m)
      with True Inr rem ok show ?thesis by (simp add: cleanupSync_def cleanupFailed_def)
    next
      case None
      with rem u r have "\<not> existsSync env f1 p" by (auto split: if_splits)
      with True Inr rem None show ?thesis by (simp add: cleanupSync_def)
    qed
  qed
qed

lemma cleanupSync_stat_fails:
  "existsSync env (fs st) p \<Longrightarrow> statSync_isDirectory env (fs st) p = Inl m \<Longrightarrow>
   cleanupSync env p st = cleanupFailed p m st"
  by (simp add: cleanupSync_def)

lemma cleanupSync_removal_fails:
  "existsSync env (fs st) p \<Longrightarrow> statSync_isDirectory env (fs st) p = Inr isDir \<Longrightarrow>
   (if isDir then rmSync env (fs st) p else unlinkSync env (fs st) p) = (Some m, f1) \<Longrightarrow>
   cleanupSync env p st = cleanupFailed p m (st\<lparr>fs := f1\<rparr>)"
  by (simp add: cleanupSync_def)

lemma cleanupSync_removal_succeeds:
  "existsSync env (fs st) p \<Longrightarrow> statSync_isDirectory env (fs st) p = Inr isDir \<Longrightarrow>
   (if isDir then rmSync env (fs st) p else unlinkSync env (fs st) p) = (None, f1) \<Longrightarrow>
   cleanupSync env p st = (True, st\<lparr>fs := f1, tempFiles := set_delete p (tempFiles st)\<rparr>)"
  by (simp add: cleanupSync_def)

lemma cleanupAllSync_le: "fst (cleanupAllSync env st) \<le> length (tempFiles st)"
proof -
  have "length (filter id (cleanupOutcomes env (tempFiles st) st))
          \<le> length (cleanupOutcomes env (tempFiles st) st)"
    by (rule length_filter_le)
  then show ?thesis by (simp add: cleanupAllSync_fst cleanupOutcomes_length)
qed

text \<open>
  C1, as the code has it: \<open>cleanupSync\<close> returns \<open>true\<close> and unregisters the
  path, so that \<open>isTempFile\<close> is false, exactly when the path is absent or its removal
  succeeds; when \<open>statSync\<close> or the removal throws it warns, returns \<open>false\<close>
  and leaves the registry as it was.
\<close>

theorem cleanupSync_unregisters_on_success:
  "(fst (cleanupSync env p st) \<longrightarrow>
      \<not> isTempFile (snd (cleanupSync env p st)) p \<and>
      tempFiles (snd (cleanupSync env p st)) = set_delete p (tempFiles st)) \<and>
   (\<not> fst (cleanupSync env p st) \<longrightarrow>
      tempFiles (snd (cleanupSync env p st)) = tempFiles st) \<and>
   (\<not> existsSync env (fs st) p \<longrightarrow>
      cleanupSync env p st = (True, st\<lparr>tempFiles := set_delete p (tempFiles st)\<rparr>)) \<and>
   (existsSync env (fs st) p \<and> statSync_isDirectory env (fs st) p = Inl m \<longrightarrow>
      cleanupSync env p st =
        (False, st\<lparr>console := console st @ [''Failed to cleanup '' @ p @ '': '' @ m]\<rparr>)) \<and>
   (existsSync env (fs st) p \<and> statSync_isDirectory env (fs st) p = Inr isDir \<and>
    (if isDir then rmSync env (fs st) p else unlinkSync env (fs st) p) = (Some m, fsLeft) \<longrightarrow>
      cleanupSync env p st =
        (False, st\<lparr>fs := fsLeft, console := console st @ [''Failed to cleanup '' @ p @ '': '' @ m]\<rparr>)) \<and>
   (existsSync env (fs st) p \<and> statSync_isDirectory env (fs st) p = Inr isDir \<and>
    (if isDir then rmSync env (fs st) p else unlinkSync env (fs st) p) = (None, fsLeft) \<longrightarrow>
      cleanupSync env p st = (True, st\<lparr>fs := fsLeft, tempFiles := set_delete p (tempFiles st)\<rparr>))"
proof -
  have one: "fst (cleanupSync env p st) \<longrightarrow>
      \<not> isTempFile (snd (cleanupSync env p st)) p \<and>
      tempFiles (snd (cleanupSync env p st)) = set_delete p (tempFiles st)"
    and two: "\<not> fst (cleanupSync env p st) \<longrightarrow>
      tempFiles (snd (cleanupSync env p st)) = tempFiles st"
    by (simp_all add: cleanupSync_registry isTempFile_def)
  have three: "\<not> existsSync env (fs st) p \<longrightarrow>
      cleanupSync env p st = (True, st\<lparr>tempFiles := set_delete p (tempFiles st)\<rparr>)"
    by (simp add: cleanupSync_absent_path)
  have four: "existsSync env (fs st) p \<and> statSync_isDirectory env (fs st) p = Inl m \<longrightarrow>
      cleanupSync env p st =
        (False, st\<lparr>console := console st @ [''Failed to cleanup '' @ p @ '': '' @ m]\<rparr>)"
    by (simp add: cleanupSync_stat_fails cleanupFailed_def)
  have five: "existsSync env (fs st) p \<and> statSync_isDirectory env (fs st) p = Inr isDir \<and>
    (if isDir then rmSync env (fs st) p else unlinkSync env (fs st) p) = (Some m, fsLeft) \<longrightarrow>
      cleanupSync env p st =
        (False, st\<lparr>fs := fsLeft, console := console st @ [''Failed to cleanup '' @ p @ '': '' @ m]\<rparr>)"
    using cleanupSync_removal_fails [of env st p isDir m fsLeft] by (simp add: cleanupFailed_def)
  have six: "existsSync env (fs st) p \<and> statSync_isDirectory env (fs st) p = Inr isDir \<and>
    (if isDir then rmSync env (fs st) p else unlinkSync env (fs st) p) = (None, fsLeft) \<longrightarrow>
      cleanupSync env p st = (True, st\<lparr>fs := fsLeft, tempFiles := set_delete p (tempFiles st)\<rparr>)"
    using cleanupSync_removal_succeeds [of env st p isDir fsLeft] by simp
  from one two three four five six show ?thesis by blast
qed

text \<open>
  C1 on an absent path, on a file whose \<open>statSync\<close> is refused, on a file that cannot
  be removed and on a file that can.
\<close>

theorem cleanupSync_unregisters_on_success_witness:
  "fst (cleanupSync mem_env free_path two_files_state) \<and>
   \<not> isTempFile (snd (cleanupSync mem_env free_path two_files_state)) free_path \<and>
   tempFiles (snd (cleanupSync mem_env free_path two_files_state)) = [pinned_path] \<and>
   \<not> fst (cleanupSync mem_env pinned_path two_files_state) \<and>
   tempFiles (snd (cleanupSync mem_env pinned_path two_files_state)) = [pinned_path, free_path] \<and>
   \<not> existsSync mem_env (fs two_files_state) ''/tmp/other'' \<and>
   cleanupSync mem_env ''/tmp/other'' two_files_state = (True, two_files_state) \<and>
   existsSync stat_denied_env (fs two_files_state) free_path \<and>
   statSync_isDirectory stat_denied_env (fs two_files_state) free_path
     = Inl ''EACCES: permission denied'' \<and>
   cleanupSync stat_denied_env free_path two_files_state =
     (False, two_files_state\<lparr>console :=
        [''Failed to cleanup /tmp/temp-0-000000000001: EACCES: permission denied'']\<rparr>) \<and>
   existsSync mem_env (fs two_files_state) pinned_path \<and>
   statSync_isDirectory mem_env (fs two_files_state) pinned_path = Inr False \<and>
   unlinkSync mem_env (fs two_files_state) pinned_path
     = (Some ''EPERM: operation not permitted'', fs two_files_state) \<and>
   cleanupSync mem_env pinned_path two_files_state =
     (False, two_files_state\<lparr>console :=
        [''Failed to cleanup /tmp/temp-0-000000000000: EPERM: operation not permitted'']\<rparr>) \<and>
   existsSync mem_env (fs two_files_state) free_path \<and>
   statSync_isDirectory mem_env (fs two_files_state) free_path = Inr False \<and>
   fst (unlinkSync mem_env (fs two_files_state) free_path) = None \<and>
   cleanupSync mem_env free_path two_files_state =
     (True, two_files_state\<lparr>fs := snd (unlinkSync mem_env (fs two_files_state) free_path),
        tempFiles := [pinned_path]\<rparr>)"
proof -
  have c: "set_delete free_path (tempFiles two_files_state) = [pinned_path]"
    "tempFiles two_files_state = [pinned_path, free_path]"
    "set_delete ''/tmp/other'' (tempFiles two_files_state) = tempFiles two_files_state"
    "console two_files_state = []"
    by (simp_all add: two_files_state_eq set_delete_def pinned_path_def free_path_def)
  have d: "\<not> existsSync mem_env (fs two_files_state) ''/tmp/other''"
    "existsSync stat_denied_env (fs two_files_state) free_path"
    "statSync_isDirectory stat_denied_env (fs two_files_state) free_path
       = Inl ''EACCES: permission denied''"
    "existsSync mem_env (fs two_files_state) pinned_path"
    "statSync_isDirectory mem_env (fs two_files_state) pinned_path = Inr False"
    "unlinkSync mem_env (fs two_files_state) pinned_path
       = (Some ''EPERM: operation not permitted'', fs two_files_state)"
    "existsSync mem_env (fs two_files_state) free_path"
    "statSync_isDirectory mem_env (fs two_files_state) free_path = Inr False"
    by (simp_all add: two_files_state_eq stat_denied_env_def mem_env_def mem_remove_def
        pinned_path_def free_path_def)
  obtain f1 where e: "unlinkSync mem_env (fs two_files_state) free_path = (None, f1)"
    by (simp add: two_files_state_eq mem_env_def mem_remove_def pinned_path_def free_path_def)
  have f: "two_files_state\<lparr>fs := fs two_files_state, console := x\<rparr>
             = two_files_state\<lparr>console := x\<rparr>" for x
    by simp
  have g: "two_files_state\<lparr>tempFiles := tempFiles two_files_state\<rparr> = two_files_state"
    by simp
  note t1 = cleanupSync_unregisters_on_success
    [where env = mem_env and p = "''/tmp/other''" and st = two_files_state and m = "[]"
      and isDir = False and fsLeft = "fs two_files_state"]
  note t2 = cleanupSync_unregisters_on_success
    [where env = stat_denied_env and p = free_path and st = two_files_state
      and m = "''EACCES: permission denied''" and isDir = False and fsLeft = "fs two_files_state"]
  note t3 = cleanupSync_unregisters_on_success
    [where env = mem_env and p = pinned_path and st = two_files_state
      and m = "''EPERM: operation not permitted''" and isDir = False
      and fsLeft = "fs two_files_state"]
  note t4 = cleanupSync_unregisters_on_success
    [where env = mem_env and p = free_path and st = two_files_state and m = "[]"
      and isDir = False and fsLeft = f1]
  have r1: "cleanupSync mem_env ''/tmp/other'' two_files_state = (True, two_files_state)"
    using t1 d(1) c(3) g by simp
  have r2: "cleanupSync stat_denied_env free_path two_files_state =
     (False, two_files_state\<lparr>console :=
        [''Failed to cleanup /tmp/temp-0-000000000001: EACCES: permission denied'']\<rparr>)"
    using t2 d(2,3) c(4) by (simp add: free_path_def)
  have r3: "cleanupSync mem_env pinned_path two_files_state =
     (False, two_files_state\<lparr>console :=
        [''Failed to cleanup /tmp/temp-0-000000000000: EPERM: operation not permitted'']\<rparr>)"
    using t3 d(4,5,6) c(4) f by (simp add: pinned_path_def)
  have r4: "cleanupSync mem_env free_path two_files_state =
     (True, two_files_state\<lparr>fs := f1, tempFiles := [pinned_path]\<rparr>)"
    using t4 d(7,8) e c(1) by simp
  show ?thesis
    using r1 r2 r3 r4 c d e by (simp add: isTempFile_def pinned_path_def free_path_def)
qed

text \<open>
  C1 as the specification states it fails: a tracked file whose removal is refused is
  still tracked after \<open>cleanupSync\<close> has returned \<open>false\<close>.
\<close>

theorem cleanupSync_failure_counterexample:
  "\<not> fst (cleanupSync mem_env pinned_path pinned_state) \<and>
   isTempFile (snd (cleanupSync mem_env pinned_path pinned_state)) pinned_path"
  by (simp add: pinned_cleanup isTempFile_def) (simp add: pinned_state_eq)

text \<open>
  C2: \<open>cleanupAllSync\<close> returns the number of paths on which \<open>cleanupSync\<close> succeeded,
  leaves no tracked path, and a second call returns 0 and changes nothing.
\<close>

theorem cleanupAllSync_counts_successes:
  "fst (cleanupAllSync env st) = length (filter id (cleanupOutcomes env (tempFiles st) st)) \<and>
   getTempFiles (snd (cleanupAllSync env st)) = [] \<and>
   cleanupAllSync env (snd (cleanupAllSync env st)) = (0, snd (cleanupAllSync env st))"
  using cleanupAllSync_fst [of env st] cleanupAllSync_empty [of env st]
    cleanupAllSync_again [of "snd (cleanupAllSync env st)" env]
  by (simp add: getTempFiles_def)

text \<open>C2 on two tracked files of which one cannot be removed: two attempts, count 1.\<close>

theorem cleanupAllSync_counts_successes_witness:
  "fst (cleanupAllSync mem_env two_files_state) = 1 \<and>
   length (tempFiles two_files_state) = 2 \<and>
   cleanupOutcomes mem_env (tempFiles two_files_state) two_files_state = [False, True] \<and>
   getTempFiles (snd (cleanupAllSync mem_env two_files_state)) = [] \<and>
   cleanupAllSync mem_env (snd (cleanupAllSync mem_env two_files_state)) =
     (0, snd (cleanupAllSync mem_env two_files_state))"
proof -
  have "cleanupOutcomes mem_env (tempFiles two_files_state) two_files_state = [False, True]"
    by (simp add: two_files_state_eq eval_defs)
  moreover have "length (tempFiles two_files_state) = 2"
    by (simp add: two_files_state_eq)
  ultimately show ?thesis
    using cleanupAllSync_counts_successes [of mem_env two_files_state] by simp
qed

text \<open>
  C4: \<open>cleanupSync\<close> on a path that does not exist returns \<open>true\<close>; and when a removal
  that succeeds leaves the path absent, a second \<open>cleanupSync\<close> after a successful
  first one returns \<open>true\<close> and changes nothing.
\<close>

theorem cleanupSync_absent_is_success:
  "(\<not> existsSync env (fs st) p \<longrightarrow>
      cleanupSync env p st = (True, st\<lparr>tempFiles := set_delete p (tempFiles st)\<rparr>)) \<and>
   ((\<forall>f q f'. unlinkSync env f q = (None, f') \<longrightarrow> \<not> existsSync env f' q) \<and>
    (\<forall>f q f'. rmSync env f q = (None, f') \<longrightarrow> \<not> existsSync env f' q) \<and>
    fst (cleanupSync env p st) \<longrightarrow>
      cleanupSync env p (snd (cleanupSync env p st)) = (True, snd (cleanupSync env p st)))"
proof (intro conjI impI)
  assume "\<not> existsSync env (fs st) p"
  then show "cleanupSync env p st = (True, st\<lparr>tempFiles := set_delete p (tempFiles st)\<rparr>)"
    by (rule cleanupSync_absent_path)
next
  let ?st1 = "snd (cleanupSync env p st)"
  assume h: "(\<forall>f q f'. unlinkSync env f q = (None, f') \<longrightarrow> \<not> existsSync env f' q) \<and>
    (\<forall>f q f'. rmSync env f q = (None, f') \<longrightarrow> \<not> existsSync env f' q) \<and>
    fst (cleanupSync env p st)"
  then have gone: "\<not> existsSync env (fs ?st1) p"
    using cleanupSync_success_gone [of env p st] by blast
  from h have "tempFiles ?st1 = set_delete p (tempFiles st)"
    by (simp add: cleanupSync_registry)
  then have "?st1\<lparr>tempFiles := set_delete p (tempFiles ?st1)\<rparr> = ?st1" by simp
  with cleanupSync_absent_path [OF gone] show "cleanupSync env p ?st1 = (True, ?st1)" by simp
qed

text \<open>C4 on a path that never existed, and on a file cleaned up twice.\<close>

theorem cleanupSync_absent_is_success_witness:
  "\<not> existsSync mem_env (fs two_files_state) ''/non/existent/file.txt'' \<and>
   cleanupSync mem_env ''/non/existent/file.txt'' two_files_state = (True, two_files_state) \<and>
   fst (cleanupSync mem_env free_path two_files_state) \<and>
   cleanupSync mem_env free_path (snd (cleanupSync mem_env free_path two_files_state)) =
     (True, snd (cleanupSync mem_env free_path two_files_state))"
proof -
  have a: "\<not> existsSync mem_env (fs two_files_state) ''/non/existent/file.txt''"
    by (simp add: two_files_state_eq mem_env_def pinned_path_def free_path_def)
  have b: "two_files_state\<lparr>tempFiles :=
             set_delete ''/non/existent/file.txt'' (tempFiles two_files_state)\<rparr> = two_files_state"
    by (simp add: two_files_state_eq set_delete_def pinned_path_def free_path_def)
  have c: "fst (cleanupSync mem_env free_path two_files_state)"
    by (simp add: two_files_state_eq eval_defs)
  show ?thesis
    using a b c mem_removal_effective
      cleanupSync_absent_is_success [of mem_env two_files_state "''/non/existent/file.txt''"]
      cleanupSync_absent_is_success [of mem_env two_files_state free_path]
    by simp
qed

text \<open>
  C10: after \<open>cleanupAllSync\<close> no path is tracked, whatever the removals did; the count
  is at most the number of paths that were tracked, and it is smaller when a removal
  fails: the path whose removal failed is dropped although it still exists.
\<close>

theorem cleanupAllSync_drops_failed:
  "getTempFiles (snd (cleanupAllSync env st)) = [] \<and>
   \<not> isTempFile (snd (cleanupAllSync env st)) p \<and>
   fst (cleanupAllSync env st) \<le> length (tempFiles st) \<and>
   fst (cleanupAllSync mem_env pinned_state) < length (tempFiles pinned_state) \<and>
   existsSync mem_env (fs (snd (cleanupAllSync mem_env pinned_state))) pinned_path"
proof -
  have "cleanupAllSync mem_env pinned_state =
     (0, pinned_state\<lparr>tempFiles := [], console :=
        [''Failed to cleanup /tmp/temp-0-000000000000: EPERM: operation not permitted'']\<rparr>)"
    by (simp add: cleanupAllSync_def pinned_state_eq pinned_cleanup [unfolded pinned_state_eq])
  then show ?thesis
    using cleanupAllSync_empty [of env st] cleanupAllSync_le [of env st]
    by (simp add: getTempFiles_def isTempFile_def) (simp add: pinned_state_eq mem_env_def)
qed

subsection \<open>The hooks\<close>

lemma transition_refl [simp]: "transition t st st"
  by (simp add: transition_def)

lemma transition_fs [simp]: "transition t st (st\<lparr>fs := f\<rparr>)"
  by (simp add: transition_def)

lemma set_add_nonempty [simp]: "set_add p xs \<noteq> []"
  by (auto simp: set_add_def)

lemma writeAndRegister_transition:
  "transition cleanup st (snd (writeAndRegister env dir filePath content mode cleanup st))"
  by (auto simp: writeAndRegister_def transition_def registerCleanup_def processHooks_def
      split: prod.splits option.splits)

lemma tempWriteSync_transition:
  "transition (default_to True (opt_cleanup opts)) st
     (snd (tempWriteSync env content extension opts rnd now st))"
  by (simp add: tempWriteSync_def Let_def writeAndRegister_transition split: jsval.splits)

lemma tempWriteJsonSync_transition:
  "transition (default_to True (opt_cleanup opts)) st
     (snd (tempWriteJsonSync env obj opts rnd now st))"
  by (simp add: tempWriteJsonSync_def tempWriteSync_transition)

lemma tempWriteCsvSync_transition:
  "transition (default_to True (opt_cleanup opts)) st
     (snd (tempWriteCsvSync env data opts rnd now st))"
  by (simp add: tempWriteCsvSync_def tempWriteSync_transition split: jsval.splits sum.splits)

lemma tempCopySync_transition:
  "transition (default_to True (opt_cleanup opts)) st
     (snd (tempCopySync env sourcePath extension opts rnd now st))"
  by (simp add: tempCopySync_def tempWriteSync_transition split: sum.splits)

lemma tempWritePatternSync_transition:
  "transition (default_to True (opt_cleanup opts)) st
     (snd (tempWritePatternSync env content pattern opts rnd now st))"
  by (simp add: tempWritePatternSync_def Let_def writeAndRegister_transition)

lemma tempDirSync_transition:
  "transition (default_to True (opt_cleanup opts)) st (snd (tempDirSync env opts rnd now st))"
  by (auto simp: tempDirSync_def Let_def transition_def registerCleanup_def processHooks_def
      split: prod.splits option.splits)

lemma cleanupSync_transition: "transition t st (snd (cleanupSync env p st))"
  using cleanupSync_registry [of env p st] cleanupSync_hooks [of env p st]
  by (auto simp: transition_def set_delete_def)

lemma cleanupAllSync_transition: "transition t st (snd (cleanupAllSync env st))"
proof -
  obtain n st1 where l: "cleanupLoop env (tempFiles st) 0 st = (n, st1)"
    by (cases "cleanupLoop env (tempFiles st) 0 st")
  with cleanupLoop_hooks [of env "tempFiles st" 0 st]
  show ?thesis by (simp add: transition_def cleanupAllSync_def)
qed

lemma excludeFromCleanup_transition: "transition t st (excludeFromCleanup p st)"
  by (auto simp: transition_def excludeFromCleanup_def set_delete_def)

lemma tracked_iff: "default_to True (opt_cleanup opts) = (opt_cleanup opts \<noteq> Some False)"
  by (cases "opt_cleanup opts") (auto simp: default_to_def)

lemma exec_transition: "transition (\<not> untracked c) st (exec env c st)"
proof -
  obtain k rnd now where c: "c = (k, rnd, now)" by (cases c)
  show ?thesis unfolding c
    by (cases k)
      (simp_all add: untracked_def tracked_iff [symmetric] tempWriteSync_transition
        tempWriteJsonSync_transition tempWriteCsvSync_transition tempCopySync_transition
        tempWritePatternSync_transition tempDirSync_transition cleanupSync_transition
        cleanupAllSync_transition excludeFromCleanup_transition)
qed

lemma transition_consistent: "transition t st st1 \<Longrightarrow> consistent st \<Longrightarrow> consistent st1"
  by (auto simp: transition_def consistent_def split: if_splits)

lemma exec_consistent: "consistent st \<Longrightarrow> consistent (exec env c st)"
  using exec_transition transition_consistent by blast

lemma run_consistent: "consistent st \<Longrightarrow> consistent (run env cs st)"
  by (induction cs arbitrary: st) (simp_all add: exec_consistent)

lemma initial_consistent [simp]: "consistent (initial f)"
  by (simp add: consistent_def initial_def)

lemma reachable_consistent: "consistent (run env cs (initial f))"
  by (simp add: run_consistent)

lemma run_untracked:
  "list_all untracked cs \<Longrightarrow> listeners (run env cs st) = listeners st"
proof (induction cs arbitrary: st)
  case Nil
  show ?case by simp
next
  case (Cons c cs)
  then have "untracked c" "list_all untracked cs" by simp_all
  with exec_transition [of c st env] have "listeners (exec env c st) = listeners st"
    by (simp add: transition_def)
  with Cons.IH [OF \<open>list_all untracked cs\<close>, of "exec env c st"] show ?case by simp
qed

lemma first_write:
  "exec mem_env write_x_call (initial (mem_fs [] [pinned_path])) = pinned_state"
  by (simp add: pinned_state_def write_x_call_def)

text \<open>
  C5: in every run of the library from a fresh process the handlers installed are none
  or the five of \<open>registerCleanup\<close>, each once; a run whose calls all pass
  \<open>cleanup: false\<close> installs none; and a call that installs them is a call that asked
  for cleanup, found none installed and tracks a path when it returns.
\<close>

theorem hooks_installed_once_and_lazily:
  "(listeners (run env cs (initial f)) = [] \<or>
    listeners (run env cs (initial f)) = processHooks) \<and>
   distinct processHooks \<and>
   (list_all untracked cs \<longrightarrow> listeners (run env cs (initial f)) = []) \<and>
   (listeners (exec env c (run env cs (initial f))) \<noteq> listeners (run env cs (initial f)) \<longrightarrow>
      listeners (run env cs (initial f)) = [] \<and>
      listeners (exec env c (run env cs (initial f))) = processHooks \<and>
      tempFiles (exec env c (run env cs (initial f))) \<noteq> [] \<and>
      \<not> untracked c)"
proof -
  let ?st = "run env cs (initial f)"
  have cons: "consistent ?st" by (rule reachable_consistent)
  have one: "listeners ?st = [] \<or> listeners ?st = processHooks"
    using cons by (auto simp: consistent_def split: if_splits)
  have two: "list_all untracked cs \<longrightarrow> listeners ?st = []"
    using run_untracked [of cs env "initial f"] by (simp add: initial_def)
  have three: "listeners (exec env c ?st) \<noteq> listeners ?st \<longrightarrow>
      listeners ?st = [] \<and> listeners (exec env c ?st) = processHooks \<and>
      tempFiles (exec env c ?st) \<noteq> [] \<and> \<not> untracked c"
    using exec_transition [of c ?st env] cons
    by (auto simp: transition_def consistent_def split: if_splits)
  show ?thesis using one two three by (simp add: processHooks_def)
qed

text \<open>C5 on two calls without cleanup, and on the first tracked write of a process.\<close>

theorem hooks_installed_once_and_lazily_witness:
  "list_all untracked [untracked_call, untracked_call] \<and>
   listeners (run mem_env [untracked_call, untracked_call] (initial (mem_fs [] []))) = [] \<and>
   listeners (run mem_env [] (initial (mem_fs [] [pinned_path]))) = [] \<and>
   listeners (exec mem_env write_x_call (run mem_env [] (initial (mem_fs [] [pinned_path]))))
     = processHooks \<and>
   tempFiles (exec mem_env write_x_call (run mem_env [] (initial (mem_fs [] [pinned_path]))))
     = [pinned_path] \<and>
   \<not> untracked write_x_call \<and>
   listeners (run mem_env [write_x_call, write_y_call] (initial (mem_fs [] [pinned_path])))
     = processHooks"
proof -
  have a: "list_all untracked [untracked_call, untracked_call]"
    by (simp add: untracked_def untracked_call_def)
  have b: "listeners (exec mem_env write_x_call (run mem_env [] (initial (mem_fs [] [pinned_path]))))
             \<noteq> listeners (run mem_env [] (initial (mem_fs [] [pinned_path])))"
    by (simp add: first_write pinned_state_eq) (simp add: initial_def processHooks_def)
  have c: "tempFiles (exec mem_env write_x_call (run mem_env [] (initial (mem_fs [] [pinned_path]))))
             = [pinned_path]"
    by (simp add: first_write pinned_state_eq)
  have d: "listeners (run mem_env [write_x_call, write_y_call] (initial (mem_fs [] [pinned_path])))
             = processHooks"
    using two_files_state_eq by (simp add: two_files_state_def)
  show ?thesis
    using a b c d
      hooks_installed_once_and_lazily [of mem_env "[untracked_call, untracked_call]" "mem_fs [] []"]
      hooks_installed_once_and_lazily [of mem_env "[]" "mem_fs [] [pinned_path]" write_x_call]
    by simp
qed

text \<open>
  C9: in every state a run reaches, a non-empty registry means that the flag is set and
  the five handlers are installed; and whenever a call adds a path to the registry, in any
  state, it has gone through \<open>registerCleanup\<close>.
\<close>

theorem registry_nonempty_implies_hooks:
  "(tempFiles (run env cs (initial f)) \<noteq> [] \<longrightarrow>
      cleanupRegistered (run env cs (initial f)) \<and>
      listeners (run env cs (initial f)) = processHooks) \<and>
   (p \<in> set (tempFiles (exec env c st)) \<and> p \<notin> set (tempFiles st) \<longrightarrow>
      cleanupRegistered (exec env c st) \<and>
      listeners (exec env c st) = listeners (registerCleanup st))"
proof -
  have "consistent (run env cs (initial f))" by (rule reachable_consistent)
  then have one: "tempFiles (run env cs (initial f)) \<noteq> [] \<longrightarrow>
      cleanupRegistered (run env cs (initial f)) \<and>
      listeners (run env cs (initial f)) = processHooks"
    by (auto simp: consistent_def split: if_splits)
  have two: "p \<in> set (tempFiles (exec env c st)) \<and> p \<notin> set (tempFiles st) \<longrightarrow>
      cleanupRegistered (exec env c st) \<and>
      listeners (exec env c st) = listeners (registerCleanup st)"
    using exec_transition [of c st env]
    by (auto simp: transition_def registerCleanup_def processHooks_def split: if_splits)
  show ?thesis using one two by simp
qed

text \<open>C9 on two tracked writes.\<close>

theorem registry_nonempty_implies_hooks_witness:
  "tempFiles (run mem_env [write_x_call, write_y_call] (initial (mem_fs [] [pinned_path])))
     = [pinned_path, free_path] \<and>
   cleanupRegistered (run mem_env [write_x_call, write_y_call] (initial (mem_fs [] [pinned_path]))) \<and>
   listeners (run mem_env [write_x_call, write_y_call] (initial (mem_fs [] [pinned_path])))
     = processHooks \<and>
   pinned_path \<in> set (tempFiles (exec mem_env write_x_call (initial (mem_fs [] [pinned_path])))) \<and>
   pinned_path \<notin> set (tempFiles (initial (mem_fs [] [pinned_path]))) \<and>
   cleanupRegistered (exec mem_env write_x_call (initial (mem_fs [] [pinned_path])))"
proof -
  have a: "tempFiles (run mem_env [write_x_call, write_y_call] (initial (mem_fs [] [pinned_path])))
             = [pinned_path, free_path]"
    using two_files_state_eq by (simp add: two_files_state_def)
  have b: "pinned_path \<in> set (tempFiles (exec mem_env write_x_call (initial (mem_fs [] [pinned_path]))))"
    by (simp add: first_write pinned_state_eq)
  have c: "pinned_path \<notin> set (tempFiles (initial (mem_fs [] [pinned_path])))"
    by (simp add: initial_def)
  show ?thesis
    using a b c
      registry_nonempty_implies_hooks [of mem_env "[write_x_call, write_y_call]"
        "mem_fs [] [pinned_path]" pinned_path write_x_call "initial (mem_fs [] [pinned_path])"]
    by simp
qed

subsection \<open>Writing\<close>





lemma writeAndRegister_error:
  "fst (writeAndRegister env dir filePath content mode cleanup st) = Inl e \<Longrightarrow>
   tempFiles (snd (writeAndRegister env dir filePath content mode cleanup st)) = tempFiles st \<and>
   cleanupRegistered (snd (writeAndRegister env dir filePath content mode cleanup st))
     = cleanupRegistered st \<and>
   listeners (snd (writeAndRegister env dir filePath content mode cleanup st)) = listeners st"
  by (auto simp: writeAndRegister_def split: prod.splits option.splits)

lemma tempWriteSync_error:
  "fst (tempWriteSync env content extension opts rnd now st) = Inl e \<Longrightarrow>
   tempFiles (snd (tempWriteSync env content extension opts rnd now st)) = tempFiles st \<and>
   cleanupRegistered (snd (tempWriteSync env content extension opts rnd now st))
     = cleanupRegistered st \<and>
   listeners (snd (tempWriteSync env content extension opts rnd now st)) = listeners st"
  by (auto simp: tempWriteSync_def Let_def dest: writeAndRegister_error
      split: jsval.splits if_splits)

lemma writeAndRegister_io_failure:
  assumes "made = (if \<not> existsSync env (fs st) dir then mkdirSync env (fs st) dir
                   else (None, fs st))"
    and "fst made = Some m \<or>
         (fst made = None \<and> fst (writeFileSync env (snd made) filePath content mode) = Some m)"
  shows "fst (writeAndRegister env dir filePath content mode cleanup st) =
           Inl (Error (''Failed to write temporary file: '' @ m))"
proof -
  obtain e1 f1 where made: "made = (e1, f1)" by (cases made)
  obtain e2 f2 where wr: "writeFileSync env f1 filePath content mode = (e2, f2)"
    by (cases "writeFileSync env f1 filePath content mode")
  have "(if \<not> existsSync env (fs st) dir then mkdirSync env (fs st) dir else (None, fs st))
          = (e1, f1)"
    using assms(1) made by simp
  then have "fst (writeAndRegister env dir filePath content mode cleanup st) =
      (case e1 of
         Some m1 \<Rightarrow> Inl (Error (''Failed to write temporary file: '' @ m1))
       | None \<Rightarrow> (case e2 of
                    Some m2 \<Rightarrow> Inl (Error (''Failed to write temporary file: '' @ m2))
                  | None \<Rightarrow> Inr filePath))"
    using wr by (simp add: writeAndRegister_def split: option.splits)
  with assms(2) made wr show ?thesis by auto
qed

text \<open>
  C3: when the directory cannot be made or the file cannot be written, \<open>tempWriteSync\<close>
  throws \<open>Failed to write temporary file\<close> followed by the message of the cause, and
  the registry and the hooks are what they were: the path is not registered.
\<close>

theorem tempWriteSync_io_failure:
  assumes "content \<noteq> JNull" and "content \<noteq> JUndefined"
    and "extension = JStr ext \<or> (extension = JUndefined \<and> ext = [])"
    and "dir = default_to (tmpdir env) (opt_dir opts)"
    and "filePath = path_join env dir (tempFileName opts rnd now (normalizeExtension ext))"
    and "made = (if \<not> existsSync env (fs st) dir then mkdirSync env (fs st) dir
                 else (None, fs st))"
    and "fst made = Some m \<or>
         (fst made = None \<and>
          fst (writeFileSync env (snd made) filePath content (Some (default_to 384 (opt_mode opts))))
            = Some m)"
  shows "fst (tempWriteSync env content extension opts rnd now st) =
           Inl (Error (''Failed to write temporary file: '' @ m)) \<and>
         tempFiles (snd (tempWriteSync env content extension opts rnd now st)) = tempFiles st \<and>
         isTempFile (snd (tempWriteSync env content extension opts rnd now st)) filePath
           = isTempFile st filePath \<and>
         listeners (snd (tempWriteSync env content extension opts rnd now st)) = listeners st"
proof -
  have w: "tempWriteSync env content extension opts rnd now st =
      writeAndRegister env dir filePath content (Some (default_to 384 (opt_mode opts)))
        (default_to True (opt_cleanup opts)) st"
    using assms(1-5) by (auto simp: tempWriteSync_def Let_def)
  have f: "fst (tempWriteSync env content extension opts rnd now st) =
           Inl (Error (''Failed to write temporary file: '' @ m))"
    unfolding w using assms(6,7) by (rule writeAndRegister_io_failure)
  from tempWriteSync_error [OF f] f show ?thesis by (simp add: isTempFile_def)
qed

text \<open>C3 on a path that refuses to be written.\<close>

theorem tempWriteSync_io_failure_witness:
  "fst (writeFileSync mem_env (mem_fs [pinned_path] []) pinned_path (JStr ''x'') (Some 384))
     = Some ''EACCES: permission denied'' \<and>
   fst (tempWriteSync mem_env (JStr ''x'') JUndefined no_options [0, 0, 0, 0, 0, 0] 0
          (initial (mem_fs [pinned_path] []))) =
     Inl (Error ''Failed to write temporary file: EACCES: permission denied'') \<and>
   tempFiles (snd (tempWriteSync mem_env (JStr ''x'') JUndefined no_options [0, 0, 0, 0, 0, 0] 0
          (initial (mem_fs [pinned_path] [])))) = [] \<and>
   \<not> isTempFile (snd (tempWriteSync mem_env (JStr ''x'') JUndefined no_options [0, 0, 0, 0, 0, 0] 0
          (initial (mem_fs [pinned_path] [])))) pinned_path"
proof -
  have a: "fst (writeFileSync mem_env (mem_fs [pinned_path] []) pinned_path (JStr ''x'') (Some 384))
     = Some ''EACCES: permission denied''"
    by (simp add: mem_env_def mem_put_def mem_fs_def)
  have b: "pinned_path = path_join mem_env ''/tmp''
      (tempFileName no_options [0, 0, 0, 0, 0, 0] 0 (normalizeExtension []))"
    by (simp add: eval_defs)
  have c: "(None, mem_fs [pinned_path] []) =
      (if \<not> existsSync mem_env (fs (initial (mem_fs [pinned_path] []))) ''/tmp''
       then mkdirSync mem_env (fs (initial (mem_fs [pinned_path] []))) ''/tmp''
       else (None, fs (initial (mem_fs [pinned_path] []))))"
    by (simp add: mem_env_def mem_fs_def initial_def)
  have d: "''/tmp'' = default_to (tmpdir mem_env) (opt_dir no_options)"
    "default_to 384 (opt_mode no_options) = 384"
    by (simp_all add: mem_env_def no_options_def default_to_def)
  have e: "tempFiles (initial (mem_fs [pinned_path] [])) = []"
    "\<not> isTempFile (initial (mem_fs [pinned_path] [])) pinned_path"
    by (simp_all add: initial_def isTempFile_def)
  show ?thesis
    using a e
      tempWriteSync_io_failure [of "JStr ''x''" JUndefined "[]" "''/tmp''" mem_env no_options
        pinned_path "[0, 0, 0, 0, 0, 0]" 0 "(None, mem_fs [pinned_path] [])"
        "initial (mem_fs [pinned_path] [])" "''EACCES: permission denied''", OF _ _ _ d(1) b c]
    by (simp add: d(2))
qed



subsection \<open>Names from a pattern\<close>

lemma splitAtFirst_Some: "splitAtFirst pat s = Some (a, b) \<Longrightarrow> s = a @ pat @ b"
proof (induction s arbitrary: a)
  case Nil
  then show ?case by (simp split: if_splits)
next
  case (Cons c cs)
  show ?case
  proof (cases "take (length pat) (c # cs) = pat")
    case True
    with Cons.prems have "a = []" "b = drop (length pat) (c # cs)" by simp_all
    with True show ?thesis by (metis append_Nil append_take_drop_id)
  next
    case False
    with Cons.prems obtain a1 where "splitAtFirst pat cs = Some (a1, b)" "a = c # a1"
      by auto
    with Cons.IH [of a1] show ?thesis by simp
  qed
qed

lemma splitAtFirst_None: "splitAtFirst pat s = None \<Longrightarrow> s \<noteq> a @ pat @ b"
proof (induction s arbitrary: a)
  case Nil
  then show ?case by (simp split: if_splits)
next
  case (Cons c cs)
  then have nt: "take (length pat) (c # cs) \<noteq> pat" and rest: "splitAtFirst pat cs = None"
    by (auto split: if_splits)
  show ?case
  proof (cases a)
    case Nil
    with nt show ?thesis by auto
  next
    case (Cons d a1)
    with Cons.IH [OF rest, of a1] show ?thesis by auto
  qed
qed

lemma occurs_iff: "occurs pat s \<longleftrightarrow> (\<exists>a b. s = a @ pat @ b)"
proof
  assume "occurs pat s"
  then obtain a b where "splitAtFirst pat s = Some (a, b)" by (auto simp: occurs_def)
  then show "\<exists>a b. s = a @ pat @ b" using splitAtFirst_Some by blast
next
  assume ex: "\<exists>a b. s = a @ pat @ b"
  show "occurs pat s"
  proof (rule ccontr)
    assume "\<not> occurs pat s"
    then have "splitAtFirst pat s = None" unfolding occurs_def by blast
    with ex splitAtFirst_None [of pat s] show False by blast
  qed
qed















subsection \<open>CSV\<close>

lemma tempWriteCsvSync_not_array:
  "\<not> isArray data \<Longrightarrow>
   tempWriteCsvSync env data opts rnd now st = (Inl (Error ''CSV data must be an array''), st)"
  by (cases data) (simp_all add: tempWriteCsvSync_def isArray_def)

lemma tempWriteCsvSync_bad_first:
  "\<not> isArray first \<Longrightarrow> typeof_js first \<noteq> ''object'' \<Longrightarrow>
   tempWriteCsvSync env (JArr (first # rest)) opts rnd now st =
     (Inl (Error ''Invalid CSV data format''), st)"
  by (simp add: tempWriteCsvSync_def csvContent_def)

lemma mapThrowing_error:
  "mapThrowing f xs = Inl e \<Longrightarrow> \<exists>x \<in> set xs. f x = Inl e"
  by (induction xs) (auto split: sum.splits)

lemma js_String_error:
  "js_String v = Inl e \<Longrightarrow> \<exists>m. e = TypeError m"
  "js_String_items vs = Inl e \<Longrightarrow> \<exists>m. e = TypeError m"
  by (induction v and vs rule: js_String_js_String_items.induct)
    (auto split: sum.splits if_splits)

lemma csvCell_error: "csvCell v = Inl e \<Longrightarrow> \<exists>m. e = TypeError m"
  using js_String_error(1) [of v e] by (auto simp: csvCell_def split: sum.splits)

lemma csvArrayRow_error: "csvArrayRow d row = Inl e \<Longrightarrow> \<exists>m. e = TypeError m"
proof (cases row)
  case (JArr cells)
  assume "csvArrayRow d row = Inl e"
  with JArr have "mapThrowing csvCell cells = Inl e"
    by (simp add: csvArrayRow_def split: sum.splits)
  then show ?thesis using mapThrowing_error csvCell_error by fastforce
qed (auto simp: csvArrayRow_def)

lemma getProp_error: "getProp v k = Inl e \<Longrightarrow> \<exists>m. e = TypeError m"
  by (auto simp: getProp_def split: jsval.splits)

lemma csvObjectRow_error: "csvObjectRow d hs row = Inl e \<Longrightarrow> \<exists>m. e = TypeError m"
proof -
  assume a: "csvObjectRow d hs row = Inl e"
  then have "mapThrowing
             (\<lambda>header. case getProp row header of
                          Inl e \<Rightarrow> Inl e
                        | Inr v \<Rightarrow> csvCell (if truthy v then v else JStr []))
             hs = Inl e"
    by (simp add: csvObjectRow_def split: sum.splits)
  then obtain h where h: "(case getProp row h of
                          Inl e \<Rightarrow> Inl e
                        | Inr v \<Rightarrow> csvCell (if truthy v then v else JStr [])) = Inl e"
    using mapThrowing_error by fastforce
  show ?thesis
  proof (cases "getProp row h")
    case (Inl e1)
    with h getProp_error show ?thesis by fastforce
  next
    case (Inr v)
    with h csvCell_error show ?thesis by fastforce
  qed
qed

lemma Object_keys_error: "Object_keys v = Inl e \<Longrightarrow> \<exists>m. e = TypeError m"
  by (auto simp: Object_keys_def split: jsval.splits)

lemma csvContent_invalid_format:
  "csvContent d rows = Inl (Error m) \<Longrightarrow>
   m = ''Invalid CSV data format'' \<and>
   (\<exists>first rest. rows = first # rest \<and> \<not> isArray first \<and> typeof_js first \<noteq> ''object'')"
proof (cases rows)
  case Nil
  assume "csvContent d rows = Inl (Error m)"
  with Nil show ?thesis by (simp add: csvContent_def)
next
  case (Cons first rest)
  assume a: "csvContent d rows = Inl (Error m)"
  show ?thesis
  proof (cases "isArray first")
    case True
    with a Cons have "mapThrowing (csvArrayRow d) rows = Inl (Error m)"
      by (simp add: csvContent_def split: sum.splits)
    then show ?thesis using mapThrowing_error csvArrayRow_error by fastforce
  next
    case False
    show ?thesis
    proof (cases "typeof_js first = ''object''")
      case True
      show ?thesis
      proof (cases "Object_keys first")
        case (Inl e)
        with a Cons False True have "e = Error m" by (simp add: csvContent_def)
        with Inl Object_keys_error show ?thesis by fastforce
      next
        case (Inr hs)
        with a Cons False True have "mapThrowing (csvObjectRow d hs) rows = Inl (Error m)"
          by (simp add: csvContent_def split: sum.splits)
        then show ?thesis using mapThrowing_error csvObjectRow_error by fastforce
      qed
    next
      case nobj: False
      with a Cons False show ?thesis by (simp add: csvContent_def)
    qed
  qed
qed

lemma tempWriteSync_string_error:
  "fst (tempWriteSync env (JStr c) (JStr e) opts rnd now st) = Inl x \<Longrightarrow>
   \<exists>m. x = Error (''Failed to write temporary file: '' @ m)"
  by (auto simp: tempWriteSync_def Let_def writeAndRegister_def split: prod.splits option.splits)

lemmas csv_defs =
  tempWriteCsvSync_def csvContent_def csvArrayRow_def csvObjectRow_def isArray_def typeof_js_def
  Object_keys_def getProp_def truthy_def quoteCell_def csvCell_def dquote_def newline_def
  decimal.simps digitChar_def

text \<open>
  C7, as the code has it: data that is not an array is refused with
  \<open>CSV data must be an array\<close>; an array whose first row is neither an array nor an
  object is refused with \<open>Invalid CSV data format\<close>, and that error has no other cause:
  rows after the first are not looked at before they are printed.
\<close>

theorem tempWriteCsvSync_rejects:
  "(\<not> isArray data \<longrightarrow>
      tempWriteCsvSync env data opts rnd now st = (Inl (Error ''CSV data must be an array''), st)) \<and>
   (\<not> isArray first \<and> typeof_js first \<noteq> ''object'' \<longrightarrow>
      tempWriteCsvSync env (JArr (first # rest)) opts rnd now st =
        (Inl (Error ''Invalid CSV data format''), st)) \<and>
   (fst (tempWriteCsvSync env (JArr rows) opts rnd now st) = Inl (Error ''Invalid CSV data format'')
      \<longrightarrow> rows \<noteq> [] \<and> \<not> isArray (hd rows) \<and> typeof_js (hd rows) \<noteq> ''object'')"
proof -
  have three: "rows \<noteq> [] \<and> \<not> isArray (hd rows) \<and> typeof_js (hd rows) \<noteq> ''object''"
    if a: "fst (tempWriteCsvSync env (JArr rows) opts rnd now st) =
             Inl (Error ''Invalid CSV data format'')"
  proof (cases "csvContent (default_to '','' (opt_delimiter opts)) rows")
    case (Inl e)
    with a have "e = Error ''Invalid CSV data format''" by (simp add: tempWriteCsvSync_def)
    with Inl csvContent_invalid_format [of "default_to '','' (opt_delimiter opts)" rows]
    show ?thesis by auto
  next
    case (Inr content)
    with a have "fst (tempWriteSync env (JStr content) (JStr ''.csv'') opts rnd now st) =
                   Inl (Error ''Invalid CSV data format'')"
      by (simp add: tempWriteCsvSync_def)
    from tempWriteSync_string_error [OF this] show ?thesis by simp
  qed
  show ?thesis
    using three by (simp add: tempWriteCsvSync_not_array tempWriteCsvSync_bad_first)
qed

text \<open>C7 on \<open>writeCsv("not an array")\<close> and \<open>writeCsv([42])\<close>.\<close>

theorem tempWriteCsvSync_rejects_witness:
  "\<not> isArray (JStr ''not an array'') \<and>
   tempWriteCsvSync mem_env (JStr ''not an array'') no_options [0, 0, 0, 0, 0, 0] 0
       (initial (mem_fs [] [])) =
     (Inl (Error ''CSV data must be an array''), initial (mem_fs [] [])) \<and>
   \<not> isArray (JNum 42) \<and> typeof_js (JNum 42) \<noteq> ''object'' \<and>
   tempWriteCsvSync mem_env (JArr [JNum 42]) no_options [0, 0, 0, 0, 0, 0] 0
       (initial (mem_fs [] [])) =
     (Inl (Error ''Invalid CSV data format''), initial (mem_fs [] []))"
proof -
  have a: "\<not> isArray (JStr ''not an array'')" "\<not> isArray (JNum 42)"
    "typeof_js (JNum 42) \<noteq> ''object''"
    by (simp_all add: isArray_def typeof_js_def)
  show ?thesis
    using a
      tempWriteCsvSync_rejects [of "JStr ''not an array''" mem_env no_options "[0, 0, 0, 0, 0, 0]" 0
        "initial (mem_fs [] [])" "JNum 42" "[]" "[]"]
    by simp
qed

text \<open>
  C7 as the specification states it fails: a record followed by a number is written
  without error, and an array followed by a number ends in a \<open>TypeError\<close>.
\<close>

theorem tempWriteCsvSync_mixed_rows_counterexample:
  "fst (tempWriteCsvSync mem_env (JArr [JObj [(''a'', JNum 1)], JNum 42]) no_options
          [0, 0, 0, 0, 0, 0] 0 (initial (mem_fs [] []))) = Inr ''/tmp/temp-0-000000000000.csv'' \<and>
   fst (tempWriteCsvSync mem_env (JArr [JArr [JNum 1], JNum 42]) no_options
          [0, 0, 0, 0, 0, 0] 0 (initial (mem_fs [] []))) = Inl (TypeError ''row.map is not a function'')"
  by (simp add: csv_defs eval_defs)

end
